theory Spec2Isabelle
  imports Complex_Main
begin

section \<open>Data model\<close>

text \<open>
  The ledger of the marketplace backend: Mongoose documents become records, collections
  become a partial map from ids (users, posts) or a list in insertion order (transactions), and every
  handler is a function from the database before the request to a response and the
  database after it.

  Numbers are JavaScript numbers in the source, that is IEEE doubles; the model computes
  with exact rationals, so a sum of the model is the exact sum where the source has the
  rounded one. The two agree on the integers of the examples below; for amounts with a
  fraction they may differ in the last digits (10 + 10.1 is 20.1 in both, but 20.1 - 10
  is 10.100000000000001 in the source). Object ids are natural numbers and dates are
  natural numbers (milliseconds).
\<close>

type_synonym oid = nat

text \<open>
  A value of a JSON request body: a scalar, an array or an object. A body is an object,
  that is a partial map from keys to values. Where a handler reads a key it expects a
  string or a number; what the validators, JavaScript and Mongoose make of a value of
  another shape is not written in the sources and is taken from the environment below.
\<close>

datatype jv = JNull | JBool bool | JNum rat | JStr string | JArr "jv list" | JObj "(string \<times> jv) list"

type_synonym body = "string \<rightharpoonup> jv"

text \<open>\<open>models/Transaction.js\<close>, the schema (lines 3--76).\<close>

datatype status = Pending | Completed | Failed | Cancelled | Refunded

record paymentGateway =
  provider :: "string option"
  gwTransactionId :: "string option"
  paymentId :: "string option"
  reference :: "string option"
  fee :: "rat option"

record metadata =
  postId :: "oid option"
  contactOwnerId :: "oid option"

record Transaction =
  transactionId :: string
  user :: oid
  type :: string
  amount :: rat
  paymentMethod :: string
  paymentGateway :: paymentGateway
  status :: status
  description :: string
  metadata :: metadata
  completedAt :: "nat option"
  failedAt :: "nat option"
  balanceBefore :: "rat option"
  balanceAfter :: "rat option"

text \<open>
  \<open>models/User.js\<close>, the schema (lines 13--126): the account fields, the fields the
  profile route protects, and \<open>profile\<close> for every other schema path.
\<close>

record User =
  email :: string
  phone :: string
  password :: string
  accountBalance :: rat
  totalSpent :: rat
  totalEarned :: rat
  isVerified :: bool
  isActive :: bool
  isBanned :: bool
  profile :: "string \<rightharpoonup> jv"

text \<open>
  \<open>models/Post.js\<close>, the schema: the fields the contact route reads, and the counter
  that \<open>incrementContactViews\<close> raises.
\<close>

record Post =
  title :: string
  postedBy :: oid
  contactInfo :: string
  contactViews :: nat

record db =
  users :: "oid \<rightharpoonup> User"
  transactions :: "Transaction list"
  posts :: "oid \<rightharpoonup> Post"

text \<open>Errors thrown inside a handler and caught by its \<open>catch\<close> blocks.\<close>

datatype exn =
    ValidatorError string string
  | CastError
  | DuplicateKey string
  | TypeError
  | Error string

text \<open>
  A response: the HTTP status, the \<open>success\<close> flag and the \<open>message\<close> of the JSON
  body. A message is a literal of the source or the \<open>error.message\<close> of a caught error.
\<close>

datatype message = Text string | Thrown exn

record response =
  code :: nat
  success :: bool
  message :: message

definition resp :: "nat \<Rightarrow> bool \<Rightarrow> string \<Rightarrow> response" where
  "resp c ok m = \<lparr>code = c, success = ok, message = Text m\<rparr>"

text \<open>
  What the world outside a handler supplies during one request: the clock, the value of
  \<open>Transaction.generateTransactionId()\<close> (time stamp and random suffix), and the
  answers of the payment provider to the three calls the routes make. A failed token
  grant and a failed HTTP call both throw inside the same \<open>try\<close>, hence one
  \<open>GwThrow\<close>. The provider receives the payer's phone, the amount as the body holds
  it and the transaction id when a session is opened, the \<open>paymentID\<close> of the body when
  a payment is executed, and the stored payment id when a status is queried.

  The libraries the routes call are outside the sources. Where a body value has the shape
  a handler expects, the model computes what they do; for every other value it takes
  their answer from the environment:
  \<^item> \<open>idQuery\<close>: what Mongoose makes of a query value for \<open>transactionId\<close> that is
    not a string: a cast error, or a condition on the stored id (the string of a number,
    an operator object such as \<open>{$ne: null}\<close>);
  \<^item> \<open>jsParseFloat\<close> and \<open>jsString\<close>: \<open>parseFloat\<close> (\<open>None\<close> for \<open>NaN\<close>)
    and the string conversion of a template literal;
  \<^item> \<open>validatorFloat\<close> and \<open>validatorString\<close>: whether \<open>isFloat\<close> of
    express-validator finds the form of a float in a value, and the string its validators
    read from a value; \<open>isFloat\<close> compares the number that \<open>parseFloat\<close> reads with
    its bounds;
  \<^item> \<open>castString\<close>, \<open>castNumber\<close>, \<open>castBoolean\<close>: the casts of Mongoose to the
    type of a schema path (\<open>None\<close> for a cast error); for \<open>null\<close> the result is what
    the path reads as afterwards;
  \<^item> \<open>rejected\<close>: the casting and the validators of the user schema paths that the
    record \<open>User\<close> keeps in \<open>profile\<close>.
\<close>

datatype gw_result =
    GwThrow
  | GwData (statusCode: string) (trxID: "string option")
      (merchantInvoiceNumber: "string option") (statusMessage: string)

datatype create_result = CreateThrow | Created (paymentID: "string option") (bkashURL: "string option")

record env =
  now :: nat
  generateTransactionId :: string
  create :: "string \<Rightarrow> jv option \<Rightarrow> string \<Rightarrow> create_result"
  execute :: "jv option \<Rightarrow> gw_result"
  query :: "string option \<Rightarrow> gw_result"
  idQuery :: "jv option \<Rightarrow> exn + (string \<Rightarrow> bool)"
  validatorFloat :: "jv \<Rightarrow> bool"
  validatorString :: "jv \<Rightarrow> string"
  jsParseFloat :: "jv \<Rightarrow> rat option"
  jsString :: "jv \<Rightarrow> string"
  castString :: "jv \<Rightarrow> string option"
  castNumber :: "jv \<Rightarrow> rat option"
  castBoolean :: "jv \<Rightarrow> bool option"
  rejected :: "body \<Rightarrow> bool"

section \<open>The Transaction model\<close>

text \<open>The \<open>enum\<close> validators of the schema (lines 11 and 22).\<close>

definition type_enum :: "string list" where
  "type_enum = [''recharge'', ''contact_view'', ''featured_post'', ''subscription'', ''refund'']"

definition paymentMethod_enum :: "string list" where
  "paymentMethod_enum =
     [''bkash'', ''nagad'', ''rocket'', ''bank_transfer'', ''card'', ''admin_credit'']"

text \<open>
  Validation before a save: the first path whose value is outside its \<open>enum\<close>. The
  status is a value of the datatype, whose constructors are the schema's enum.
\<close>

definition validate :: "Transaction \<Rightarrow> exn option" where
  "validate t =
     (if type t \<notin> set type_enum then Some (ValidatorError ''type'' (type t))
      else if paymentMethod t \<notin> set paymentMethod_enum
        then Some (ValidatorError ''paymentMethod'' (paymentMethod t))
      else None)"

text \<open>The first stored transaction with the id \<open>tid\<close>.\<close>

definition byId :: "string \<Rightarrow> db \<Rightarrow> Transaction option" where
  "byId tid s = find (\<lambda>t. transactionId t = tid) (transactions s)"

text \<open>
  \<open>Transaction.findOne({ transactionId })\<close>, with the value of the request body as the
  query: for a string, the first document with this id; for any other value (a missing
  key, a number, an operator object) the cast error or the first document whose id meets
  the condition that \<open>idQuery\<close> gives.
\<close>

definition findOne :: "env \<Rightarrow> jv option \<Rightarrow> db \<Rightarrow> exn + Transaction option" where
  "findOne e q s =
     (case q of
        Some (JStr tid) \<Rightarrow> Inr (byId tid s)
      | _ \<Rightarrow>
          (case idQuery e q of
             Inl err \<Rightarrow> Inl err
           | Inr P \<Rightarrow> Inr (find (\<lambda>t. P (transactionId t)) (transactions s))))"

text \<open>
  \<open>save()\<close> of a new document: validation, then the insert, which the unique index
  on \<open>transactionId\<close> (line 5) rejects for an id already stored.
\<close>

definition save_new :: "Transaction \<Rightarrow> db \<Rightarrow> exn + db" where
  "save_new t s =
     (case validate t of
        Some e \<Rightarrow> Inl e
      | None \<Rightarrow>
          if transactionId t \<in> transactionId ` set (transactions s)
          then Inl (DuplicateKey (transactionId t))
          else Inr (s\<lparr>transactions := transactions s @ [t]\<rparr>))"

text \<open>
  \<open>save()\<close> of a document read from the collection: the stored document is replaced.
  The routes change only the status, the dates, the description, the gateway record and
  \<open>balanceAfter\<close> of such a document, none of which a validator of the schema rejects.
\<close>

definition save_tx :: "Transaction \<Rightarrow> db \<Rightarrow> db" where
  "save_tx t s =
     s\<lparr>transactions :=
         map (\<lambda>t'. if transactionId t' = transactionId t then t else t') (transactions s)\<rparr>"

text \<open>JavaScript truthiness of an optional string: defined and not empty.\<close>

definition truthy :: "string option \<Rightarrow> bool" where
  "truthy v = (case v of None \<Rightarrow> False | Some x \<Rightarrow> x \<noteq> [])"

text \<open>And of an optional number: defined and not zero.\<close>

definition truthy_num :: "rat option \<Rightarrow> bool" where
  "truthy_num v = (case v of None \<Rightarrow> False | Some x \<Rightarrow> x \<noteq> 0)"

text \<open>The argument of \<open>markCompleted\<close>; a key the caller leaves out is \<open>None\<close>.\<close>

record gatewayData =
  gd_transactionId :: "string option"
  gd_reference :: "string option"
  gd_fee :: "rat option"

text \<open>
  \<open>markCompleted\<close> (lines 93--108) and \<open>markFailed\<close> (lines 111--116), the assignments;
  the \<open>save()\<close> that ends both is \<open>save_tx\<close> at the call.
\<close>

definition markCompleted :: "nat \<Rightarrow> gatewayData \<Rightarrow> Transaction \<Rightarrow> Transaction" where
  "markCompleted date g t =
     (let t1 = t\<lparr>status := Completed, completedAt := Some date\<rparr>;
          t2 = (if truthy (gd_transactionId g)
                then t1\<lparr>paymentGateway :=
                        (paymentGateway t1)\<lparr>gwTransactionId := gd_transactionId g\<rparr>\<rparr>
                else t1);
          t3 = (if truthy (gd_reference g)
                then t2\<lparr>paymentGateway := (paymentGateway t2)\<lparr>reference := gd_reference g\<rparr>\<rparr>
                else t2);
          t4 = (if truthy_num (gd_fee g)
                then t3\<lparr>paymentGateway := (paymentGateway t3)\<lparr>fee := gd_fee g\<rparr>\<rparr>
                else t3)
      in t4)"

definition markFailed :: "nat \<Rightarrow> string \<Rightarrow> Transaction \<Rightarrow> Transaction" where
  "markFailed date reason t =
     t\<lparr>status := Failed, failedAt := Some date,
       description := (if reason \<noteq> [] then reason else description t)\<rparr>"

section \<open>The User model\<close>

text \<open>\<open>canViewContact\<close> (lines 176--178) and \<open>deductContactViewCost\<close> (lines 181--188).\<close>

definition canViewContact :: "User \<Rightarrow> bool" where
  "canViewContact u \<longleftrightarrow> accountBalance u \<ge> 5"

definition deductContactViewCost :: "User \<Rightarrow> exn + User" where
  "deductContactViewCost u =
     (if accountBalance u \<ge> 5
      then Inr (u\<lparr>accountBalance := accountBalance u - 5, totalSpent := totalSpent u + 5\<rparr>)
      else Inl (Error ''Insufficient balance''))"

text \<open>
  \<open>user.save()\<close> of a document whose account fields were assigned: the modified paths
  are written to the stored document.
\<close>

definition save_user :: "oid \<Rightarrow> User \<Rightarrow> db \<Rightarrow> db" where
  "save_user uid u s =
     (case users s uid of
        None \<Rightarrow> s
      | Some stored \<Rightarrow>
          s\<lparr>users := (users s)(uid \<mapsto>
               stored\<lparr>accountBalance := accountBalance u, totalSpent := totalSpent u\<rparr>)\<rparr>)"

section \<open>The payment routes\<close>

text \<open>
  \<open>POST /api/payments/callback\<close> (\<open>routes/payments.js\<close>, lines 157--246). The handler
  reads exactly three keys of the body. A query that Mongoose cannot cast throws at
  line 161 and is answered by the outer \<open>catch\<close>. A missing user makes line 190 throw
  a \<open>TypeError\<close> inside the inner \<open>try\<close>, which the inner \<open>catch\<close> handles.
\<close>

definition callback :: "env \<Rightarrow> body \<Rightarrow> db \<Rightarrow> response \<times> db" where
  "callback e b s =
     (case findOne e (b ''transactionId'') s of
        Inl err \<Rightarrow>
          (resp 500 False ''Server error occurred while processing payment callback'', s)
      | Inr None \<Rightarrow> (resp 404 False ''Transaction not found'', s)
      | Inr (Some t) \<Rightarrow>
          if b ''status'' = Some (JStr ''success'') then
            (case execute e (b ''paymentID'') of
               GwThrow \<Rightarrow>
                 (resp 500 False ''Payment execution failed'',
                  save_tx (markFailed (now e) ''Payment execution error'' t) s)
             | GwData sc trx mInv sm \<Rightarrow>
                 if sc = ''0000'' then
                   (case users s (user t) of
                      None \<Rightarrow>
                        (resp 500 False ''Payment execution failed'',
                         save_tx (markFailed (now e) ''Payment execution error'' t) s)
                    | Some u \<Rightarrow>
                        let u' = u\<lparr>accountBalance := accountBalance u + amount t\<rparr>;
                            s1 = save_user (user t) u' s;
                            t1 = markCompleted (now e)
                                   \<lparr>gd_transactionId = trx, gd_reference = mInv, gd_fee = None\<rparr> t;
                            t2 = t1\<lparr>balanceAfter := Some (accountBalance u')\<rparr>
                        in (resp 200 True ''Payment completed successfully'', save_tx t2 s1))
                 else
                   (resp 400 False ''Payment execution failed'',
                    save_tx (markFailed (now e) (''bKash execution failed: '' @ sm) t) s))
          else
            (resp 200 False ''Payment was cancelled'',
             save_tx (markFailed (now e) ''Payment cancelled by user'' t) s))"

text \<open>
  \<open>POST /api/payments/verify\<close> (lines 334--415), for the authenticated user \<open>uid\<close>.
  The inner \<open>catch\<close> only logs, so every path after the lookup ends in the final
  \<open>res.json\<close>, which carries no message.
\<close>

definition notEmpty :: "env \<Rightarrow> jv option \<Rightarrow> bool" where
  "notEmpty e v =
     (case v of
        None \<Rightarrow> False
      | Some JNull \<Rightarrow> False
      | Some (JStr x) \<Rightarrow> x \<noteq> []
      | Some (JNum r) \<Rightarrow> True
      | Some (JBool c) \<Rightarrow> True
      | Some w \<Rightarrow> validatorString e w \<noteq> [])"

definition findOneOwned :: "env \<Rightarrow> jv option \<Rightarrow> oid \<Rightarrow> db \<Rightarrow> exn + Transaction option" where
  "findOneOwned e q uid s =
     (case q of
        Some (JStr tid) \<Rightarrow>
          Inr (find (\<lambda>t. transactionId t = tid \<and> user t = uid) (transactions s))
      | _ \<Rightarrow>
          (case idQuery e q of
             Inl err \<Rightarrow> Inl err
           | Inr P \<Rightarrow>
               Inr (find (\<lambda>t. P (transactionId t) \<and> user t = uid) (transactions s))))"

definition verify :: "env \<Rightarrow> oid \<Rightarrow> body \<Rightarrow> db \<Rightarrow> response \<times> db" where
  "verify e uid b s =
     (if \<not> notEmpty e (b ''transactionId'') then (resp 400 False ''Validation failed'', s)
      else case findOneOwned e (b ''transactionId'') uid s of
        Inl err \<Rightarrow> (resp 500 False ''Server error occurred while verifying payment'', s)
      | Inr None \<Rightarrow> (resp 404 False ''Transaction not found'', s)
      | Inr (Some t) \<Rightarrow>
          if status t = Completed then (resp 200 True ''Transaction already completed'', s)
          else if paymentMethod t = ''bkash'' \<and> status t = Pending then
            (case query e (paymentId (paymentGateway t)) of
               GwThrow \<Rightarrow> (resp 200 True [], s)
             | GwData sc trx mInv sm \<Rightarrow>
                 if sc = ''0000'' then
                   (case users s (user t) of
                      None \<Rightarrow> (resp 200 True [], s)
                    | Some u \<Rightarrow>
                        let u' = u\<lparr>accountBalance := accountBalance u + amount t\<rparr>;
                            s1 = save_user (user t) u' s;
                            t1 = markCompleted (now e)
                                   \<lparr>gd_transactionId = trx, gd_reference = None, gd_fee = None\<rparr> t;
                            t2 = t1\<lparr>balanceAfter := Some (accountBalance u')\<rparr>
                        in (resp 200 True [], save_tx t2 s1))
                 else (resp 200 True [], s))
          else (resp 200 True [], s))"

text \<open>
  \<open>POST /api/payments/recharge\<close> (lines 44--152). The two validators of the chain
  (lines 45--46), then the part up to the first \<open>save()\<close> (lines 48--82), then the
  provider session (lines 84--143), which the handler enters when the body's
  \<open>paymentMethod\<close> is the string \<open>bkash\<close>. A rejected insert is caught by the outer
  \<open>catch\<close>.
\<close>

definition isFloat :: "env \<Rightarrow> rat \<Rightarrow> rat \<Rightarrow> jv option \<Rightarrow> bool" where
  "isFloat e lo hi v =
     (case v of
        None \<Rightarrow> False
      | Some (JNum r) \<Rightarrow> lo \<le> r \<and> r \<le> hi
      | Some JNull \<Rightarrow> False
      | Some (JBool c) \<Rightarrow> False
      | Some w \<Rightarrow>
          validatorFloat e w \<and>
          (case jsParseFloat e w of None \<Rightarrow> False | Some r \<Rightarrow> lo \<le> r \<and> r \<le> hi))"

definition isIn :: "env \<Rightarrow> string list \<Rightarrow> jv option \<Rightarrow> bool" where
  "isIn e ms v =
     (case v of
        None \<Rightarrow> False
      | Some (JStr m) \<Rightarrow> m \<in> set ms
      | Some JNull \<Rightarrow> False
      | Some w \<Rightarrow> validatorString e w \<in> set ms)"

definition recharge_valid :: "env \<Rightarrow> body \<Rightarrow> bool" where
  "recharge_valid e b \<longleftrightarrow>
     isFloat e 10 10000 (b ''amount'') \<and>
     isIn e [''bkash'', ''nagad'', ''rocket''] (b ''paymentMethod'')"

text \<open>
  \<open>parseFloat(amount)\<close>, and the cast of \<open>paymentMethod\<close> to the string path of the
  schema when the document is built; \<open>None\<close> is \<open>NaN\<close> and a cast error, either of
  which makes the \<open>save()\<close> of line 82 fail its validation.
\<close>

definition parseFloat :: "env \<Rightarrow> jv option \<Rightarrow> rat option" where
  "parseFloat e v =
     (case v of None \<Rightarrow> None | Some (JNum r) \<Rightarrow> Some r | Some w \<Rightarrow> jsParseFloat e w)"

definition cast_method :: "env \<Rightarrow> jv option \<Rightarrow> string option" where
  "cast_method e v =
     (case v of None \<Rightarrow> None | Some (JStr m) \<Rightarrow> Some m | Some w \<Rightarrow> castString e w)"

definition template :: "env \<Rightarrow> jv option \<Rightarrow> string" where
  "template e v =
     (case v of None \<Rightarrow> ''undefined'' | Some (JStr m) \<Rightarrow> m | Some w \<Rightarrow> jsString e w)"

definition empty_gateway :: paymentGateway where
  "empty_gateway =
     \<lparr>provider = None, gwTransactionId = None, paymentId = None, reference = None, fee = None\<rparr>"

definition new_recharge :: "env \<Rightarrow> oid \<Rightarrow> body \<Rightarrow> rat \<Rightarrow> string \<Rightarrow> User \<Rightarrow> Transaction" where
  "new_recharge e uid b a m u =
     \<lparr>transactionId = generateTransactionId e,
      user = uid,
      type = ''recharge'',
      amount = a,
      paymentMethod = m,
      paymentGateway = empty_gateway,
      status = Pending,
      description = ''Account recharge via '' @ template e (b ''paymentMethod''),
      metadata = \<lparr>postId = None, contactOwnerId = None\<rparr>,
      completedAt = None,
      failedAt = None,
      balanceBefore = Some (accountBalance u),
      balanceAfter = None\<rparr>"

definition recharge_open :: "env \<Rightarrow> oid \<Rightarrow> body \<Rightarrow> db \<Rightarrow> response + (Transaction \<times> User \<times> db)" where
  "recharge_open e uid b s =
     (if \<not> recharge_valid e b then Inl (resp 400 False ''Validation failed'')
      else case users s uid of
        None \<Rightarrow> Inl (resp 404 False ''User not found'')
      | Some u \<Rightarrow>
          (case parseFloat e (b ''amount'') of
             None \<Rightarrow> Inl (resp 500 False ''Server error occurred while initiating payment'')
           | Some a \<Rightarrow>
               (case cast_method e (b ''paymentMethod'') of
                  None \<Rightarrow>
                    Inl (resp 500 False ''Server error occurred while initiating payment'')
                | Some m \<Rightarrow>
                    (case save_new (new_recharge e uid b a m u) s of
                       Inl err \<Rightarrow>
                         Inl (resp 500 False ''Server error occurred while initiating payment'')
                     | Inr s1 \<Rightarrow> Inr (new_recharge e uid b a m u, u, s1)))))"

definition recharge_session :: "env \<Rightarrow> body \<Rightarrow> Transaction \<Rightarrow> User \<Rightarrow> db \<Rightarrow> response \<times> db" where
  "recharge_session e b t u s =
     (if b ''paymentMethod'' = Some (JStr ''bkash'') then
        (case create e (phone u) (b ''amount'') (transactionId t) of
           CreateThrow \<Rightarrow>
             (resp 500 False ''Failed to create bKash payment'',
              save_tx (markFailed (now e) ''bKash payment creation failed'' t) s)
         | Created pid url \<Rightarrow>
             (resp 200 True ''Payment initiated successfully'',
              save_tx (t\<lparr>paymentGateway :=
                          (paymentGateway t)\<lparr>paymentId := pid, provider := Some ''bkash''\<rparr>\<rparr>) s))
      else (resp 200 True ''Payment initiated successfully'', s))"

definition recharge :: "env \<Rightarrow> oid \<Rightarrow> body \<Rightarrow> db \<Rightarrow> response \<times> db" where
  "recharge e uid b s =
     (case recharge_open e uid b s of
        Inl r \<Rightarrow> (r, s)
      | Inr (t, u, s1) \<Rightarrow> recharge_session e b t u s1)"

section \<open>The paywall route\<close>

text \<open>
  \<open>POST /api/posts/:id/contact\<close> (lines 750--817 of the posts routes). The handler
  first reads the post and the user (lines 752--761); everything after works on the user
  document it has read: the balance check, the debit and its \<open>save()\<close>, the ledger
  record and its \<open>save()\<close>, the view counter. The outer \<open>catch\<close> answers 500 with the
  message of the error. A missing user makes \<open>user.canViewContact()\<close> throw.
  \<open>incrementContactViews\<close> is the method of \<open>models/Post.js\<close>: it raises the counter
  of the document and saves it.
\<close>

definition incrementContactViews :: "Post \<Rightarrow> Post" where
  "incrementContactViews p = p\<lparr>contactViews := contactViews p + 1\<rparr>"

definition save_post :: "oid \<Rightarrow> Post \<Rightarrow> db \<Rightarrow> db" where
  "save_post pid p s =
     (case posts s pid of
        None \<Rightarrow> s
      | Some stored \<Rightarrow> s\<lparr>posts := (posts s)(pid \<mapsto> stored\<lparr>contactViews := contactViews p\<rparr>)\<rparr>)"

definition new_contact_view :: "env \<Rightarrow> oid \<Rightarrow> oid \<Rightarrow> Post \<Rightarrow> User \<Rightarrow> Transaction" where
  "new_contact_view e uid pid p u =
     \<lparr>transactionId = generateTransactionId e,
      user = uid,
      type = ''contact_view'',
      amount = 5,
      paymentMethod = ''account_balance'',
      paymentGateway = empty_gateway,
      status = Completed,
      description = ''Contact view for post: '' @ title p,
      metadata = \<lparr>postId = Some pid, contactOwnerId = Some (postedBy p)\<rparr>,
      completedAt = Some (now e),
      failedAt = None,
      balanceBefore = Some (accountBalance u + 5),
      balanceAfter = Some (accountBalance u)\<rparr>"

definition contact_read :: "oid \<Rightarrow> oid \<Rightarrow> db \<Rightarrow> response + (Post \<times> User option)" where
  "contact_read uid pid s =
     (case posts s pid of
        None \<Rightarrow> Inl (resp 404 False ''Post not found'')
      | Some p \<Rightarrow> Inr (p, users s uid))"

definition contact_write :: "env \<Rightarrow> oid \<Rightarrow> oid \<Rightarrow> Post \<times> User option \<Rightarrow> db \<Rightarrow> response \<times> db" where
  "contact_write e uid pid pu s =
     (case snd pu of
        None \<Rightarrow> (\<lparr>code = 500, success = False, message = Thrown TypeError\<rparr>, s)
      | Some u \<Rightarrow>
          if \<not> canViewContact u
          then (resp 400 False ''Insufficient balance. Please recharge your account.'', s)
          else
            (case deductContactViewCost u of
               Inl err \<Rightarrow> (\<lparr>code = 500, success = False, message = Thrown err\<rparr>, s)
             | Inr u' \<Rightarrow>
                 let s1 = save_user uid u' s in
                 (case save_new (new_contact_view e uid pid (fst pu) u') s1 of
                    Inl err \<Rightarrow> (\<lparr>code = 500, success = False, message = Thrown err\<rparr>, s1)
                  | Inr s2 \<Rightarrow>
                      (resp 200 True ''Contact information retrieved successfully'',
                       save_post pid (incrementContactViews (fst pu)) s2))))"

definition contact :: "env \<Rightarrow> oid \<Rightarrow> oid \<Rightarrow> db \<Rightarrow> response \<times> db" where
  "contact e uid pid s =
     (case contact_read uid pid s of
        Inl r \<Rightarrow> (r, s)
      | Inr pu \<Rightarrow> contact_write e uid pid pu s)"

section \<open>The profile route\<close>

text \<open>
  \<open>PUT /api/auth/profile\<close> (lines 195--232 of the auth routes): five \<open>delete\<close>s on
  the body, then \<open>findByIdAndUpdate\<close> with \<open>$set\<close> and \<open>runValidators\<close>. The update
  is cast against the schema before it reaches the collection: a value that does not cast
  to the type of its path fails the whole update, which the \<open>catch\<close> answers with 500.
  A value of the type of its path is stored as it is; the cast of any other value is the
  one of the environment. In strict mode a key outside the schema is dropped.
\<close>

definition delete :: "string \<Rightarrow> body \<Rightarrow> body" where
  "delete k b = b(k := None)"

definition cast_num :: "env \<Rightarrow> jv \<Rightarrow> rat option" where
  "cast_num e v = (case v of JNum r \<Rightarrow> Some r | _ \<Rightarrow> castNumber e v)"

definition cast_str :: "env \<Rightarrow> jv \<Rightarrow> string option" where
  "cast_str e v = (case v of JStr x \<Rightarrow> Some x | _ \<Rightarrow> castString e v)"

definition cast_bool :: "env \<Rightarrow> jv \<Rightarrow> bool option" where
  "cast_bool e v = (case v of JBool x \<Rightarrow> Some x | _ \<Rightarrow> castBoolean e v)"

definition castable :: "(jv \<Rightarrow> 'a option) \<Rightarrow> jv option \<Rightarrow> bool" where
  "castable cast v = (case v of None \<Rightarrow> True | Some x \<Rightarrow> cast x \<noteq> None)"

definition assign :: "(jv \<Rightarrow> 'a option) \<Rightarrow> jv option \<Rightarrow> 'a \<Rightarrow> 'a" where
  "assign cast v old =
     (case v of None \<Rightarrow> old | Some x \<Rightarrow> (case cast x of None \<Rightarrow> old | Some y \<Rightarrow> y))"

definition other_paths :: "string list" where
  "other_paths =
     [''name'', ''profileImage'', ''userType'', ''isTeacher'', ''isGuardian'', ''location'',
      ''teacherProfile'', ''guardianProfile'', ''verificationDocuments'', ''rating'',
      ''totalRatings'', ''reviews'', ''lastActive'', ''joinedAt'', ''showPhone'', ''showEmail'',
      ''profileVisibility'', ''banReason'', ''preferences'']"

definition top :: "string \<Rightarrow> string" where
  "top k = takeWhile (\<lambda>c. c \<noteq> CHR ''.'') k"

definition set_profile :: "body \<Rightarrow> (string \<rightharpoonup> jv) \<Rightarrow> (string \<rightharpoonup> jv)" where
  "set_profile upd m =
     (\<lambda>k. if top k \<in> set other_paths then (case upd k of Some v \<Rightarrow> Some v | None \<Rightarrow> m k)
          else m k)"

definition cast_ok :: "env \<Rightarrow> body \<Rightarrow> bool" where
  "cast_ok e upd \<longleftrightarrow>
     castable (cast_str e) (upd ''email'') \<and> castable (cast_str e) (upd ''phone'') \<and>
     castable (cast_str e) (upd ''password'') \<and> castable (cast_num e) (upd ''accountBalance'') \<and>
     castable (cast_num e) (upd ''totalSpent'') \<and> castable (cast_num e) (upd ''totalEarned'') \<and>
     castable (cast_bool e) (upd ''isVerified'') \<and> castable (cast_bool e) (upd ''isActive'') \<and>
     castable (cast_bool e) (upd ''isBanned'')"

definition apply_set :: "env \<Rightarrow> body \<Rightarrow> User \<Rightarrow> User" where
  "apply_set e upd u =
     \<lparr>email = assign (cast_str e) (upd ''email'') (email u),
      phone = assign (cast_str e) (upd ''phone'') (phone u),
      password = assign (cast_str e) (upd ''password'') (password u),
      accountBalance = assign (cast_num e) (upd ''accountBalance'') (accountBalance u),
      totalSpent = assign (cast_num e) (upd ''totalSpent'') (totalSpent u),
      totalEarned = assign (cast_num e) (upd ''totalEarned'') (totalEarned u),
      isVerified = assign (cast_bool e) (upd ''isVerified'') (isVerified u),
      isActive = assign (cast_bool e) (upd ''isActive'') (isActive u),
      isBanned = assign (cast_bool e) (upd ''isBanned'') (isBanned u),
      profile = set_profile upd (profile u)\<rparr>"

definition findByIdAndUpdate :: "env \<Rightarrow> oid \<Rightarrow> body \<Rightarrow> db \<Rightarrow> exn + (User option \<times> db)" where
  "findByIdAndUpdate e uid upd s =
     (if \<not> cast_ok e upd then Inl CastError
      else if rejected e upd then Inl (ValidatorError [] [])
      else case users s uid of
        None \<Rightarrow> Inr (None, s)
      | Some u \<Rightarrow>
          Inr (Some (apply_set e upd u), s\<lparr>users := (users s)(uid \<mapsto> apply_set e upd u)\<rparr>))"

definition profile_update :: "env \<Rightarrow> oid \<Rightarrow> body \<Rightarrow> db \<Rightarrow> response \<times> db" where
  "profile_update e uid b s =
     (let updates =
            delete ''isBanned'' (delete ''isVerified'' (delete ''accountBalance''
              (delete ''email'' (delete ''password'' b))))
      in case findByIdAndUpdate e uid updates s of
           Inl err \<Rightarrow> (resp 500 False ''Server error occurred while updating profile'', s)
         | Inr (None, s1) \<Rightarrow> (resp 404 False ''User not found'', s1)
         | Inr (Some u', s1) \<Rightarrow> (resp 200 True ''Profile updated successfully'', s1))"

section \<open>Sequences of requests\<close>

text \<open>
  One request, served from its first line to its response with no other request in
  between, and a sequence of such requests, each with what the outside world supplies
  to it.
\<close>

datatype op =
    Recharge oid body
  | Callback body
  | Verify oid body
  | Contact oid oid
  | Profile oid body

fun step :: "env \<Rightarrow> op \<Rightarrow> db \<Rightarrow> response \<times> db" where
  "step e (Recharge uid b) s = recharge e uid b s"
| "step e (Callback b) s = callback e b s"
| "step e (Verify uid b) s = verify e uid b s"
| "step e (Contact uid pid) s = contact e uid pid s"
| "step e (Profile uid b) s = profile_update e uid b s"

fun run :: "(env \<times> op) list \<Rightarrow> db \<Rightarrow> db" where
  "run [] s = s"
| "run (x # xs) s = run xs (snd (step (fst x) (snd x) s))"

text \<open>The responses of a sequence, in order.\<close>

fun responses :: "(env \<times> op) list \<Rightarrow> db \<Rightarrow> response list" where
  "responses [] s = []"
| "responses (x # xs) s =
     fst (step (fst x) (snd x) s) # responses xs (snd (step (fst x) (snd x) s))"

text \<open>
  Two contact requests \<open>A\<close> and \<open>B\<close> of one user. Each handler gives up control at
  its \<open>await\<close>s, so between the reads of \<open>A\<close> and its first write the reads of \<open>B\<close>
  may run. \<open>two_serial\<close>: \<open>B\<close> starts after \<open>A\<close> has answered. \<open>two_overlapped\<close>:
  both read, then \<open>A\<close> finishes, then \<open>B\<close> finishes.
\<close>

definition two_serial ::
  "env \<Rightarrow> env \<Rightarrow> oid \<Rightarrow> oid \<Rightarrow> oid \<Rightarrow> db \<Rightarrow> response \<times> response \<times> db" where
  "two_serial eA eB uid pidA pidB s =
     (let (rA, s1) = contact eA uid pidA s;
          (rB, s2) = contact eB uid pidB s1
      in (rA, rB, s2))"

definition two_overlapped ::
  "env \<Rightarrow> env \<Rightarrow> oid \<Rightarrow> oid \<Rightarrow> oid \<Rightarrow> db \<Rightarrow> response \<times> response \<times> db" where
  "two_overlapped eA eB uid pidA pidB s =
     (case (contact_read uid pidA s, contact_read uid pidB s) of
        (Inr puA, Inr puB) \<Rightarrow>
          (let (rA, s1) = contact_write eA uid pidA puA s;
               (rB, s2) = contact_write eB uid pidB puB s1
           in (rA, rB, s2))
      | (Inl rA, Inr puB) \<Rightarrow>
          (let (rB, s2) = contact_write eB uid pidB puB s in (rA, rB, s2))
      | (Inr puA, Inl rB) \<Rightarrow>
          (let (rA, s1) = contact_write eA uid pidA puA s in (rA, rB, s1))
      | (Inl rA, Inl rB) \<Rightarrow> (rA, rB, s))"

section \<open>The ledger properties\<close>

text \<open>
  The sign with which a completed transaction moves the balance: the routes add the
  amount of a recharge (\<open>payments.js\<close>, line 190) and subtract the amount of a contact
  view (\<open>User.js\<close>, line 183); of the types no route creates, a refund is a credit and
  the other two are purchases.
\<close>

definition signedAmount :: "Transaction \<Rightarrow> rat" where
  "signedAmount t =
     (if type t = ''recharge'' \<or> type t = ''refund'' then amount t else - amount t)"

definition completedSum :: "oid \<Rightarrow> db \<Rightarrow> rat" where
  "completedSum uid s =
     sum_list (map signedAmount
       (filter (\<lambda>t. user t = uid \<and> status t = Completed) (transactions s)))"


definition balanceOf :: "oid \<Rightarrow> db \<Rightarrow> rat option" where
  "balanceOf uid s = map_option accountBalance (users s uid)"

definition terminal :: "status \<Rightarrow> bool" where
  "terminal st \<longleftrightarrow> st = Completed \<or> st = Failed \<or> st = Cancelled"

text \<open>All balances are at least zero, and no stored amount is negative.\<close>

definition nonneg :: "db \<Rightarrow> bool" where
  "nonneg s \<longleftrightarrow>
     (\<forall>u \<in> ran (users s). 0 \<le> accountBalance u) \<and>
     (\<forall>t \<in> set (transactions s). 0 \<le> amount t)"

text \<open>No pending transaction has a \<open>balanceAfter\<close>.\<close>

definition pending_unset :: "db \<Rightarrow> bool" where
  "pending_unset s \<longleftrightarrow>
     (\<forall>t \<in> set (transactions s). status t = Pending \<longrightarrow> balanceAfter t = None)"

text \<open>The fields the profile route protects.\<close>

definition protected :: "User \<Rightarrow> rat \<times> string \<times> string \<times> bool \<times> bool" where
  "protected u = (accountBalance u, password u, email u, isVerified u, isBanned u)"

section \<open>A small marketplace\<close>

text \<open>
  One user with an empty account and one post, a provider that answers every call with
  the status code \<open>sc\<close>, and the bodies of the two payment requests. In this world the
  operator object \<open>{$ne: null}\<close> as a query for the transaction id matches every stored
  id, and the libraries refuse every other value that has not the expected shape.
\<close>

definition ne_null :: jv where
  "ne_null = JObj [(''$ne'', JNull)]"

definition alice :: User where
  "alice = \<lparr>email = ''alice@example.org'', phone = ''01700000000'', password = ''hash'',
      accountBalance = 0, totalSpent = 0, totalEarned = 0, isVerified = False,
      isActive = True, isBanned = False, profile = Map.empty\<rparr>"

definition flat :: Post where
  "flat = \<lparr>title = ''Flat'', postedBy = 2, contactInfo = ''01800000000'', contactViews = 0\<rparr>"

definition db0 :: db where
  "db0 = \<lparr>users = [1 \<mapsto> alice], transactions = [], posts = [7 \<mapsto> flat]\<rparr>"

definition world :: "string \<Rightarrow> string \<Rightarrow> env" where
  "world tid sc =
     \<lparr>now = 1000, generateTransactionId = tid,
      create = (\<lambda>payer a i. Created (Some ''P1'') (Some ''https://pay'')),
      execute = (\<lambda>p. GwData sc (Some ''TRX1'') (Some tid) ''reply''),
      query = (\<lambda>p. GwData sc (Some ''TRX1'') None ''reply''),
      idQuery = (\<lambda>q. if q = Some ne_null then Inr (\<lambda>i. True) else Inr (\<lambda>i. False)),
      validatorFloat = (\<lambda>v. False),
      validatorString = (\<lambda>v. []),
      jsParseFloat = (\<lambda>v. None),
      jsString = (\<lambda>v. []),
      castString = (\<lambda>v. None),
      castNumber = (\<lambda>v. None),
      castBoolean = (\<lambda>v. None),
      rejected = (\<lambda>upd. False)\<rparr>"

definition recharge_body :: "rat \<Rightarrow> string \<Rightarrow> body" where
  "recharge_body a m = [''amount'' \<mapsto> JNum a, ''paymentMethod'' \<mapsto> JStr m]"

definition callback_body :: "string \<Rightarrow> string \<Rightarrow> body" where
  "callback_body tid st =
     [''paymentID'' \<mapsto> JStr ''P1'', ''status'' \<mapsto> JStr st, ''transactionId'' \<mapsto> JStr tid]"

text \<open>A recharge of \<open>a\<close> under the id \<open>tid\<close>, and the provider's callback for it.\<close>

definition pay :: "string \<Rightarrow> rat \<Rightarrow> (env \<times> op)" where
  "pay tid a = (world tid ''0000'', Recharge 1 (recharge_body a ''nagad''))"

definition confirm :: "string \<Rightarrow> string \<Rightarrow> (env \<times> op)" where
  "confirm tid sc = (world tid sc, Callback (callback_body tid ''success''))"




text \<open>The callback body for \<open>A\<close> with an amount added by the sender.\<close>

definition forged :: body where
  "forged = (callback_body ''A'' ''success'')(''amount'' \<mapsto> JNum 1000000)"

text \<open>The same marketplace with a balance of 3, and of 5.\<close>

definition db3 :: db where
  "db3 = db0\<lparr>users := [1 \<mapsto> alice\<lparr>accountBalance := 3\<rparr>]\<rparr>"

definition db5 :: db where
  "db5 = db0\<lparr>users := [1 \<mapsto> alice\<lparr>accountBalance := 5\<rparr>]\<rparr>"




section \<open>Lemmas on the model\<close>

lemmas example_defs =
  alice_def flat_def db0_def world_def recharge_body_def callback_body_def pay_def confirm_def

lemmas handler_defs =
  recharge_def recharge_open_def recharge_session_def recharge_valid_def isFloat_def isIn_def
  new_recharge_def save_new_def validate_def type_enum_def paymentMethod_enum_def
  parseFloat_def cast_method_def template_def callback_def findOne_def byId_def save_tx_def
  save_user_def save_post_def incrementContactViews_def
  markCompleted_def markFailed_def truthy_def truthy_num_def resp_def empty_gateway_def
  contact_def contact_read_def contact_write_def new_contact_view_def canViewContact_def
  deductContactViewCost_def verify_def findOneOwned_def notEmpty_def Let_def

text \<open>Whatever the query value, a lookup is a search for a condition on the stored id.\<close>

lemma findOne_condition:
  assumes "findOne e q s = Inr r"
  shows "\<exists>Q. \<forall>s'. findOne e q s' = Inr (find (\<lambda>x. Q (transactionId x) \<and> True) (transactions s'))"
proof (cases "\<exists>tid. q = Some (JStr tid)")
  case True
  then obtain tid where "q = Some (JStr tid)" by blast
  then show ?thesis
    by (intro exI [of _ "\<lambda>i. i = tid"]) (simp add: findOne_def byId_def)
next
  case False
  with assms obtain P where "idQuery e q = Inr P"
    by (cases "idQuery e q") (auto simp: findOne_def split: option.splits jv.splits)
  with False show ?thesis
    by (intro exI [of _ P]) (auto simp: findOne_def split: option.splits jv.splits)
qed

lemma findOneOwned_condition:
  assumes "findOneOwned e q uid s = Inr r"
  shows "\<exists>Q. \<forall>s'. findOneOwned e q uid s' =
     Inr (find (\<lambda>x. Q (transactionId x) \<and> user x = uid) (transactions s'))"
proof (cases "\<exists>tid. q = Some (JStr tid)")
  case True
  then obtain tid where "q = Some (JStr tid)" by blast
  then show ?thesis
    by (intro exI [of _ "\<lambda>i. i = tid"]) (simp add: findOneOwned_def)
next
  case False
  with assms obtain P where "idQuery e q = Inr P"
    by (cases "idQuery e q") (auto simp: findOneOwned_def split: option.splits jv.splits)
  with False show ?thesis
    by (intro exI [of _ P]) (auto simp: findOneOwned_def split: option.splits jv.splits)
qed

lemma findOne_in: "findOne e q s = Inr (Some t) \<Longrightarrow> t \<in> set (transactions s)"
  using findOne_condition [of e q s "Some t"] by (auto simp: find_Some_iff)

lemma findOneOwned_in: "findOneOwned e q uid s = Inr (Some t) \<Longrightarrow> t \<in> set (transactions s)"
  using findOneOwned_condition [of e q uid s "Some t"] by (auto simp: find_Some_iff)


lemma findOne_string: "findOne e (Some (JStr tid)) s = Inr (byId tid s)"
  by (simp add: findOne_def)

lemma amount_markFailed [simp]: "amount (markFailed d r t) = amount t"
  by (simp add: markFailed_def)

lemma amount_markCompleted [simp]: "amount (markCompleted d g t) = amount t"
  by (simp add: markCompleted_def Let_def)

lemma status_markFailed [simp]: "status (markFailed d r t) = Failed"
  by (simp add: markFailed_def)

lemma status_markCompleted [simp]: "status (markCompleted d g t) = Completed"
  by (simp add: markCompleted_def Let_def)

lemma users_save_tx [simp]: "users (save_tx t s) = users s"
  by (simp add: save_tx_def)

lemma transactions_save_user [simp]: "transactions (save_user uid u s) = transactions s"
  by (simp add: save_user_def split: option.splits)

lemma transactions_save_post [simp]: "transactions (save_post pid p s) = transactions s"
  by (simp add: save_post_def split: option.splits)

lemma users_save_post [simp]: "users (save_post pid p s) = users s"
  by (simp add: save_post_def split: option.splits)

lemma posts_save_post [simp]: "posts (save_post pid q s) p = None \<longleftrightarrow> posts s p = None"
  by (auto simp: save_post_def split: option.splits)

lemma balanceOf_save_tx [simp]: "balanceOf uid (save_tx t s) = balanceOf uid s"
  by (simp add: balanceOf_def)

lemma balanceOf_save_user:
  "users s uid = Some stored \<Longrightarrow> balanceOf uid (save_user uid u s) = Some (accountBalance u)"
  by (simp add: balanceOf_def save_user_def)

lemma set_transactions_save_tx:
  "set (transactions (save_tx t s)) \<subseteq> insert t (set (transactions s))"
  by (auto simp: save_tx_def)

lemma nonneg_save_tx: "nonneg s \<Longrightarrow> 0 \<le> amount t \<Longrightarrow> nonneg (save_tx t s)"
  using set_transactions_save_tx [of t s] by (auto simp: nonneg_def)

lemma nonneg_save_user:
  "nonneg s \<Longrightarrow> 0 \<le> accountBalance u \<Longrightarrow> nonneg (save_user uid u s)"
  by (auto simp: nonneg_def save_user_def ran_def split: option.splits if_splits)

lemma nonneg_user: "nonneg s \<Longrightarrow> users s uid = Some u \<Longrightarrow> 0 \<le> accountBalance u"
  by (auto simp: nonneg_def ran_def)

lemma nonneg_tx: "nonneg s \<Longrightarrow> t \<in> set (transactions s) \<Longrightarrow> 0 \<le> amount t"
  by (auto simp: nonneg_def)

lemma nonneg_credit:
  "nonneg s \<Longrightarrow> t \<in> set (transactions s) \<Longrightarrow> users s uid = Some u \<Longrightarrow>
   0 \<le> accountBalance u + amount t"
  using nonneg_tx [of s t] nonneg_user [of s uid u] by simp

lemma nonneg_fail:
  "nonneg s \<Longrightarrow> t \<in> set (transactions s) \<Longrightarrow> nonneg (save_tx (markFailed d r t) s)"
  by (rule nonneg_save_tx) (simp_all add: nonneg_tx)

lemma nonneg_complete:
  assumes "nonneg s" and "t \<in> set (transactions s)" and "users s uid = Some u"
  shows "nonneg (save_tx ((markCompleted d g t)\<lparr>balanceAfter := x\<rparr>)
           (save_user uid (u\<lparr>accountBalance := accountBalance u + amount t\<rparr>) s))"
proof (rule nonneg_save_tx)
  show "nonneg (save_user uid (u\<lparr>accountBalance := accountBalance u + amount t\<rparr>) s)"
    using assms by (intro nonneg_save_user) (simp_all add: nonneg_credit)
  show "0 \<le> amount ((markCompleted d g t)\<lparr>balanceAfter := x\<rparr>)"
    using assms by (simp add: nonneg_tx)
qed

lemma nonneg_callback: "nonneg s \<Longrightarrow> nonneg (snd (callback e b s))"
  by (auto simp: callback_def Let_def split: sum.splits option.splits gw_result.splits
      intro: nonneg_fail nonneg_complete dest: findOne_in)

lemma nonneg_verify: "nonneg s \<Longrightarrow> nonneg (snd (verify e uid b s))"
  by (auto simp: verify_def Let_def split: sum.splits option.splits gw_result.splits
      intro: nonneg_fail nonneg_complete dest: findOneOwned_in)

lemma nonneg_save_new:
  "nonneg s \<Longrightarrow> 0 \<le> amount t \<Longrightarrow> save_new t s = Inr s1 \<Longrightarrow> nonneg s1"
  by (auto simp: save_new_def nonneg_def split: option.splits if_splits)

text \<open>The amount that is stored has passed the bounds of the validator.\<close>

lemma recharge_valid_amount:
  "recharge_valid e b \<Longrightarrow> parseFloat e (b ''amount'') = Some a \<Longrightarrow> 10 \<le> a \<and> a \<le> 10000"
  by (auto simp: recharge_valid_def isFloat_def parseFloat_def split: option.splits jv.splits)

lemma recharge_open_created:
  assumes "recharge_open e uid b s = Inr (t, u, s1)"
  shows "recharge_valid e b \<and> users s uid = Some u \<and>
     (\<exists>a m. parseFloat e (b ''amount'') = Some a \<and> cast_method e (b ''paymentMethod'') = Some m \<and>
        t = new_recharge e uid b a m u) \<and>
     transactionId t \<notin> transactionId ` set (transactions s) \<and>
     s1 = s\<lparr>transactions := transactions s @ [t]\<rparr>"
  using assms
  by (auto simp: recharge_open_def save_new_def split: option.splits if_splits sum.splits)

lemma nonneg_recharge_open:
  assumes "nonneg s" and "recharge_open e uid b s = Inr (t, u, s1)"
  shows "nonneg s1 \<and> 0 \<le> amount t"
proof -
  from recharge_open_created [OF assms(2)] obtain a m where v: "recharge_valid e b"
    and a: "parseFloat e (b ''amount'') = Some a" and t: "t = new_recharge e uid b a m u"
    and s1: "s1 = s\<lparr>transactions := transactions s @ [t]\<rparr>"
    by blast
  from recharge_valid_amount [OF v a] t have "0 \<le> amount t"
    by (simp add: new_recharge_def)
  with assms(1) s1 show ?thesis by (auto simp: nonneg_def)
qed

lemma nonneg_recharge_session:
  "nonneg s \<Longrightarrow> 0 \<le> amount t \<Longrightarrow> nonneg (snd (recharge_session e b t u s))"
  by (auto simp: recharge_session_def split: create_result.splits intro!: nonneg_save_tx)

lemma nonneg_recharge: "nonneg s \<Longrightarrow> nonneg (snd (recharge e uid b s))"
  by (auto simp: recharge_def split: sum.splits dest: nonneg_recharge_open
      intro: nonneg_recharge_session)

lemma nonneg_contact_write:
  "nonneg s \<Longrightarrow> nonneg (snd (contact_write e uid pid pu s))"
proof (cases "snd pu")
  case None
  assume "nonneg s"
  with None show ?thesis by (simp add: contact_write_def)
next
  case (Some u)
  assume n: "nonneg s"
  show ?thesis
  proof (cases "canViewContact u")
    case False
    with Some n show ?thesis by (simp add: contact_write_def)
  next
    case True
    let ?u' = "u\<lparr>accountBalance := accountBalance u - 5, totalSpent := totalSpent u + 5\<rparr>"
    from True have d: "deductContactViewCost u = Inr ?u'"
      by (simp add: canViewContact_def deductContactViewCost_def)
    from True have "0 \<le> accountBalance ?u'" by (simp add: canViewContact_def)
    with n have n1: "nonneg (save_user uid ?u' s)" by (rule nonneg_save_user)
    have "nonneg (snd (case save_new (new_contact_view e uid pid (fst pu) ?u') (save_user uid ?u' s) of
              Inl err \<Rightarrow> (\<lparr>code = 500, success = False, message = Thrown err\<rparr>, save_user uid ?u' s)
            | Inr s2 \<Rightarrow> (resp 200 True ''Contact information retrieved successfully'',
                 save_post pid (incrementContactViews (fst pu)) s2)))"
      using n1 by (auto split: sum.splits simp: nonneg_def save_new_def new_contact_view_def split: option.splits if_splits)
    with Some True d show ?thesis by (simp add: contact_write_def Let_def)
  qed
qed

lemma nonneg_contact: "nonneg s \<Longrightarrow> nonneg (snd (contact e uid pid s))"
  by (auto simp: contact_def split: sum.splits intro: nonneg_contact_write)

lemma accountBalance_apply_set:
  "upd ''accountBalance'' = None \<Longrightarrow> accountBalance (apply_set e upd u) = accountBalance u"
  by (simp add: apply_set_def assign_def)

lemma nonneg_profile_update: "nonneg s \<Longrightarrow> nonneg (snd (profile_update e uid b s))"
  by (auto simp: profile_update_def findByIdAndUpdate_def Let_def nonneg_def ran_def
      accountBalance_apply_set delete_def split: option.splits sum.splits if_splits)

lemma nonneg_step: "nonneg s \<Longrightarrow> nonneg (snd (step e x s))"
  by (cases x) (simp_all add: nonneg_recharge nonneg_callback nonneg_verify nonneg_contact
      nonneg_profile_update)

lemma nonneg_run: "nonneg s \<Longrightarrow> nonneg (run xs s)"
  by (induction xs arbitrary: s) (simp_all add: nonneg_step)

lemma callback_cong:
  assumes "b1 ''transactionId'' = b2 ''transactionId''" and "b1 ''status'' = b2 ''status''"
    and "b1 ''paymentID'' = b2 ''paymentID''"
  shows "callback e b1 s = callback e b2 s"
  unfolding callback_def assms ..

lemma callback_success:
  assumes "findOne e (b ''transactionId'') s = Inr (Some t)"
    and "success (fst (callback e b s))"
  shows "\<exists>u. users s (user t) = Some u \<and>
      balanceOf (user t) (snd (callback e b s)) = Some (accountBalance u + amount t)"
  using assms
  by (auto simp: callback_def Let_def resp_def balanceOf_def save_user_def
      split: option.splits gw_result.splits if_splits)

lemma callback_no_success:
  "\<not> success (fst (callback e b s)) \<Longrightarrow> users (snd (callback e b s)) = users s"
  by (auto simp: callback_def Let_def resp_def
      split: sum.splits option.splits gw_result.splits if_splits)

lemma find_replace_aux:
  "Q (k t') \<Longrightarrow> P t' \<Longrightarrow> find (\<lambda>x. Q (k x) \<and> P x) xs = Some t \<Longrightarrow> k t' = k t \<Longrightarrow>
   find (\<lambda>x. Q (k x) \<and> P x) (map (\<lambda>x. if k x = k t' then t' else x) xs) = Some t'"
  by (induction xs) (auto split: if_splits)

lemma find_replace:
  assumes "find (\<lambda>x. Q (k x) \<and> P x) xs = Some t" and "k t' = k t" and "P t'"
  shows "find (\<lambda>x. Q (k x) \<and> P x) (map (\<lambda>x. if k x = k t' then t' else x) xs) = Some t'"
proof -
  from assms(1) have "Q (k t)" by (auto simp: find_Some_iff)
  with assms(2) have "Q (k t')" by simp
  from find_replace_aux [OF this assms(3) assms(1) assms(2)] show ?thesis .
qed

lemma findOne_save_tx:
  assumes "findOne e q s = Inr (Some t)" and "transactionId t' = transactionId t"
  shows "findOne e q (save_tx t' s) = Inr (Some t')"
proof -
  from findOne_condition [OF assms(1)] obtain Q where
    Q: "\<And>s'. findOne e q s' = Inr (find (\<lambda>x. Q (transactionId x) \<and> True) (transactions s'))"
    by blast
  from assms(1) Q [of s]
  have f: "find (\<lambda>x. Q (transactionId x) \<and> True) (transactions s) = Some t"
    by simp
  from find_replace [OF f assms(2)] Q [of "save_tx t' s"] show ?thesis
    by (simp add: save_tx_def)
qed

lemma findOne_save_user [simp]: "findOne e q (save_user uid u s) = findOne e q s"
  by (simp add: findOne_def byId_def split: option.splits jv.splits sum.splits)

lemma transactionId_markFailed [simp]: "transactionId (markFailed d r t) = transactionId t"
  by (simp add: markFailed_def)

lemma transactionId_markCompleted [simp]: "transactionId (markCompleted d g t) = transactionId t"
  by (simp add: markCompleted_def Let_def)








lemma recharge_valid_missing:
  "b ''amount'' = None \<or> b ''paymentMethod'' = None \<Longrightarrow> \<not> recharge_valid e b"
  by (auto simp: recharge_valid_def isFloat_def isIn_def)


lemma recharge_no_user:
  "recharge_valid e b \<Longrightarrow> users s uid = None \<Longrightarrow>
   recharge e uid b s = (resp 404 False ''User not found'', s)"
  by (simp add: recharge_def recharge_open_def)







lemma pending_unset_save_user [simp]: "pending_unset (save_user uid u s) = pending_unset s"
  by (simp add: pending_unset_def)










lemma findOneOwned_save_user [simp]:
  "findOneOwned e q uid (save_user uid' u s) = findOneOwned e q uid s"
  by (simp add: findOneOwned_def split: option.splits jv.splits sum.splits)

lemma user_markCompleted [simp]: "user (markCompleted d g t) = user t"
  by (simp add: markCompleted_def Let_def)

lemma balanceBefore_markCompleted [simp]:
  "balanceBefore (markCompleted d g t) = balanceBefore t"
  by (simp add: markCompleted_def Let_def)

lemma type_markCompleted [simp]: "type (markCompleted d g t) = type t"
  by (simp add: markCompleted_def Let_def)



text \<open>
  The sibling path: \<open>verify\<close> changes nothing for a transaction that is not pending.
\<close>

lemma verify_not_pending:
  "findOneOwned e (b ''transactionId'') uid s = Inr (Some t) \<Longrightarrow> status t \<noteq> Pending \<Longrightarrow>
   snd (verify e uid b s) = s"
  by (simp add: verify_def)

text \<open>
  Whatever the provider answers, a callback for a completed transaction is not a no-op:
  it either credits the owner again or rewrites the transaction to failed.
\<close>

lemma callback_on_completed:
  assumes "findOne e (b ''transactionId'') s = Inr (Some t)" and "status t = Completed"
    and "users s (user t) = Some u" and "amount t \<noteq> 0"
  shows "balanceOf (user t) (snd (callback e b s)) = Some (accountBalance u + amount t) \<or>
     (\<exists>t'. findOne e (b ''transactionId'') (snd (callback e b s)) = Inr (Some t') \<and>
        status t' = Failed)"
  using assms
  by (auto simp: callback_def Let_def balanceOf_save_user findOne_save_tx
      split: gw_result.splits)

lemma verify_terminal:
  "findOneOwned e (b ''transactionId'') uid s = Inr (Some t) \<Longrightarrow> terminal (status t) \<Longrightarrow>
   snd (verify e uid b s) = s"
  by (auto simp: terminal_def intro: verify_not_pending)

lemma contact_low_balance:
  "users s uid = Some u \<Longrightarrow> accountBalance u < 5 \<Longrightarrow>
   contact e uid pid s =
     (if posts s pid = None then resp 404 False ''Post not found''
      else resp 400 False ''Insufficient balance. Please recharge your account.'', s)"
  by (auto simp: contact_def contact_read_def contact_write_def canViewContact_def
      split: option.splits)

lemma contact_write_debit:
  assumes "snd pu = Some u" and "5 \<le> accountBalance u" and "users s uid = Some stored"
  shows "code (fst (contact_write e uid pid pu s)) \<noteq> 400 \<and>
     users (snd (contact_write e uid pid pu s)) =
       (users s)(uid \<mapsto> stored\<lparr>accountBalance := accountBalance u - 5,
                                totalSpent := totalSpent u + 5\<rparr>) \<and>
     (\<forall>p. posts s p \<noteq> None \<longrightarrow> posts (snd (contact_write e uid pid pu s)) p \<noteq> None)"
  using assms
  by (auto simp: contact_write_def canViewContact_def deductContactViewCost_def Let_def
      save_user_def save_new_def resp_def split: sum.splits option.splits if_splits)

lemma two_serial_result:
  assumes "users s uid = Some u" and "accountBalance u = 5"
    and "posts s pidA = Some pA" and "posts s pidB = Some pB"
  shows "code (fst (two_serial eA eB uid pidA pidB s)) \<noteq> 400 \<and>
     fst (snd (two_serial eA eB uid pidA pidB s)) =
       resp 400 False ''Insufficient balance. Please recharge your account.'' \<and>
     snd (snd (two_serial eA eB uid pidA pidB s)) = snd (contact eA uid pidA s) \<and>
     users (snd (snd (two_serial eA eB uid pidA pidB s))) =
       (users s)(uid \<mapsto> u\<lparr>accountBalance := 0, totalSpent := totalSpent u + 5\<rparr>)"
proof -
  let ?A = "contact_write eA uid pidA (pA, Some u) s"
  from assms have cA: "contact eA uid pidA s = ?A"
    by (simp add: contact_def contact_read_def)
  from assms have w: "code (fst ?A) \<noteq> 400" 
    "users (snd ?A) = (users s)(uid \<mapsto> u\<lparr>accountBalance := 0, totalSpent := totalSpent u + 5\<rparr>)"
    "posts (snd ?A) pidB \<noteq> None"
    using contact_write_debit [of "(pA, Some u)" u s uid u eA pidA] by simp_all
  from w(2) have "users (snd ?A) uid = Some (u\<lparr>accountBalance := 0, totalSpent := totalSpent u + 5\<rparr>)"
    by simp
  from contact_low_balance [OF this, of eB pidB] w(3)
  have cB: "contact eB uid pidB (snd ?A) =
      (resp 400 False ''Insufficient balance. Please recharge your account.'', snd ?A)"
    by simp
  from cA cB w show ?thesis
    by (simp add: two_serial_def split_beta)
qed

lemma two_overlapped_result:
  assumes "users s uid = Some u" and "accountBalance u = 5"
    and "posts s pidA = Some pA" and "posts s pidB = Some pB"
  shows "code (fst (two_overlapped eA eB uid pidA pidB s)) \<noteq> 400 \<and>
     code (fst (snd (two_overlapped eA eB uid pidA pidB s))) \<noteq> 400 \<and>
     users (snd (snd (two_overlapped eA eB uid pidA pidB s))) =
       (users s)(uid \<mapsto> u\<lparr>accountBalance := 0, totalSpent := totalSpent u + 5\<rparr>)"
proof -
  let ?A = "contact_write eA uid pidA (pA, Some u) s"
  let ?B = "contact_write eB uid pidB (pB, Some u) (snd ?A)"
  from assms have r: "contact_read uid pidA s = Inr (pA, Some u)"
    "contact_read uid pidB s = Inr (pB, Some u)"
    by (simp_all add: contact_read_def)
  from assms have a: "code (fst ?A) \<noteq> 400"
    "users (snd ?A) = (users s)(uid \<mapsto> u\<lparr>accountBalance := 0, totalSpent := totalSpent u + 5\<rparr>)"
    using contact_write_debit [of "(pA, Some u)" u s uid u eA pidA] by simp_all
  from a(2) have "users (snd ?A) uid = Some (u\<lparr>accountBalance := 0, totalSpent := totalSpent u + 5\<rparr>)"
    by simp
  from contact_write_debit [of "(pB, Some u)" u "snd ?A" uid _ eB pidB, OF _ _ this] assms a(2)
  have b: "code (fst ?B) \<noteq> 400"
    "users (snd ?B) = (users s)(uid \<mapsto> u\<lparr>accountBalance := 0, totalSpent := totalSpent u + 5\<rparr>)"
    by simp_all
  from r a b show ?thesis
    by (simp add: two_overlapped_def split_beta)
qed

section \<open>The claims\<close>

text \<open>
  C1. Completing or failing a transaction that is already terminal should change neither
  the transaction nor the balance. The callback does not behave so, for it has no check of
  the stored status. After one recharge of 100 and its callback the balance is 100 and the
  transaction is completed. The same callback delivered once more, with the provider
  answering \<open>0000\<close> again, raises the balance to 200; with the provider declining the
  repeated execution, the completed transaction is rewritten to failed while the balance
  keeps the credit.
\<close>

theorem C1_callback_twice:
  "balanceOf 1 (run [pay ''A'' 100, confirm ''A'' ''0000''] db0) = Some 100 \<and>
   map_option status (byId ''A''
     (run [pay ''A'' 100, confirm ''A'' ''0000''] db0)) = Some Completed \<and>
   balanceOf 1 (run [pay ''A'' 100, confirm ''A'' ''0000'', confirm ''A'' ''0000''] db0)
     = Some 200 \<and>
   map_option status (byId ''A''
     (run [pay ''A'' 100, confirm ''A'' ''0000'', confirm ''A'' ''2062''] db0)) = Some Failed \<and>
   balanceOf 1 (run [pay ''A'' 100, confirm ''A'' ''0000'', confirm ''A'' ''2062''] db0)
     = Some 100"
  by (simp add: balanceOf_def example_defs handler_defs)

text \<open>
  C2, as stated, fails. The user has a balance of exactly 5. When both calls have read the
  user before either saves, both pass the balance check and both write the debit:
  neither is answered with the insufficient-balance error (status 400). In both orders
  the call that debits is answered 500, because the ledger record of the debit is
  rejected by the schema, so no call succeeds.
\<close>

theorem C2_overlapped_calls_both_debit:
  "fst (two_overlapped (world ''A'' ''0000'') (world ''B'' ''0000'') 1 7 7 db5) =
     \<lparr>code = 500, success = False,
       message = Thrown (ValidatorError ''paymentMethod'' ''account_balance'')\<rparr> \<and>
   fst (snd (two_overlapped (world ''A'' ''0000'') (world ''B'' ''0000'') 1 7 7 db5)) =
     \<lparr>code = 500, success = False,
       message = Thrown (ValidatorError ''paymentMethod'' ''account_balance'')\<rparr> \<and>
   balanceOf 1 (snd (snd (two_overlapped (world ''A'' ''0000'') (world ''B'' ''0000'') 1 7 7 db5)))
     = Some 0 \<and>
   fst (two_serial (world ''A'' ''0000'') (world ''B'' ''0000'') 1 7 7 db5) =
     \<lparr>code = 500, success = False,
       message = Thrown (ValidatorError ''paymentMethod'' ''account_balance'')\<rparr> \<and>
   fst (snd (two_serial (world ''A'' ''0000'') (world ''B'' ''0000'') 1 7 7 db5)) =
     resp 400 False ''Insufficient balance. Please recharge your account.''"
  by (simp add: two_overlapped_def two_serial_def db5_def balanceOf_def example_defs
      handler_defs)

text \<open>
  C2, amended. For a user whose balance is exactly the price 5 and two contact calls for
  posts that exist: when the second call starts after the first has answered, the first
  passes the balance check and debits 5, the second is answered with the
  insufficient-balance error and changes nothing, and the final balance is 0. When both
  calls read the user before either saves, both pass the balance check and both write
  the debited account: neither is answered with the insufficient-balance error, and the
  final balance is again 0, with \<open>totalSpent\<close> raised by 5.
\<close>

theorem C2_two_contact_calls:
  "users s uid = Some u \<and> accountBalance u = 5 \<and>
   posts s pidA = Some pA \<and> posts s pidB = Some pB \<longrightarrow>
     code (fst (two_serial eA eB uid pidA pidB s)) \<noteq> 400 \<and>
     fst (snd (two_serial eA eB uid pidA pidB s)) =
       resp 400 False ''Insufficient balance. Please recharge your account.'' \<and>
     snd (snd (two_serial eA eB uid pidA pidB s)) = snd (contact eA uid pidA s) \<and>
     users (snd (snd (two_serial eA eB uid pidA pidB s))) =
       (users s)(uid \<mapsto> u\<lparr>accountBalance := 0, totalSpent := totalSpent u + 5\<rparr>) \<and>
     balanceOf uid (snd (snd (two_serial eA eB uid pidA pidB s))) = Some 0 \<and>
     code (fst (two_overlapped eA eB uid pidA pidB s)) \<noteq> 400 \<and>
     code (fst (snd (two_overlapped eA eB uid pidA pidB s))) \<noteq> 400 \<and>
     users (snd (snd (two_overlapped eA eB uid pidA pidB s))) =
       (users s)(uid \<mapsto> u\<lparr>accountBalance := 0, totalSpent := totalSpent u + 5\<rparr>) \<and>
     balanceOf uid (snd (snd (two_overlapped eA eB uid pidA pidB s))) = Some 0"
proof
  assume h: "users s uid = Some u \<and> accountBalance u = 5 \<and>
    posts s pidA = Some pA \<and> posts s pidB = Some pB"
  then have 1: "users s uid = Some u" and 2: "accountBalance u = 5"
    and 3: "posts s pidA = Some pA" and 4: "posts s pidB = Some pB"
    by simp_all
  note S = two_serial_result [OF 1 2 3 4, of eA eB]
  note V = two_overlapped_result [OF 1 2 3 4, of eA eB]
  from S have "users (snd (snd (two_serial eA eB uid pidA pidB s))) =
      (users s)(uid \<mapsto> u\<lparr>accountBalance := 0, totalSpent := totalSpent u + 5\<rparr>)"
    by blast
  then have "balanceOf uid (snd (snd (two_serial eA eB uid pidA pidB s))) = Some 0"
    by (simp add: balanceOf_def)
  moreover from V have "users (snd (snd (two_overlapped eA eB uid pidA pidB s))) =
      (users s)(uid \<mapsto> u\<lparr>accountBalance := 0, totalSpent := totalSpent u + 5\<rparr>)"
    by blast
  then have "balanceOf uid (snd (snd (two_overlapped eA eB uid pidA pidB s))) = Some 0"
    by (simp add: balanceOf_def)
  ultimately show "code (fst (two_serial eA eB uid pidA pidB s)) \<noteq> 400 \<and>
     fst (snd (two_serial eA eB uid pidA pidB s)) =
       resp 400 False ''Insufficient balance. Please recharge your account.'' \<and>
     snd (snd (two_serial eA eB uid pidA pidB s)) = snd (contact eA uid pidA s) \<and>
     users (snd (snd (two_serial eA eB uid pidA pidB s))) =
       (users s)(uid \<mapsto> u\<lparr>accountBalance := 0, totalSpent := totalSpent u + 5\<rparr>) \<and>
     balanceOf uid (snd (snd (two_serial eA eB uid pidA pidB s))) = Some 0 \<and>
     code (fst (two_overlapped eA eB uid pidA pidB s)) \<noteq> 400 \<and>
     code (fst (snd (two_overlapped eA eB uid pidA pidB s))) \<noteq> 400 \<and>
     users (snd (snd (two_overlapped eA eB uid pidA pidB s))) =
       (users s)(uid \<mapsto> u\<lparr>accountBalance := 0, totalSpent := totalSpent u + 5\<rparr>) \<and>
     balanceOf uid (snd (snd (two_overlapped eA eB uid pidA pidB s))) = Some 0"
    using S V by blast
qed

theorem C2_two_contact_calls_witness:
  "users db5 1 = Some (alice\<lparr>accountBalance := 5\<rparr>) \<and>
   accountBalance (alice\<lparr>accountBalance := 5\<rparr>) = 5 \<and>
   posts db5 7 = Some flat \<and>
   fst (snd (two_serial (world ''A'' ''0000'') (world ''B'' ''0000'') 1 7 7 db5)) =
     resp 400 False ''Insufficient balance. Please recharge your account.'' \<and>
   balanceOf 1 (snd (snd (two_serial (world ''A'' ''0000'') (world ''B'' ''0000'') 1 7 7 db5)))
     = Some 0 \<and>
   code (fst (snd (two_overlapped (world ''A'' ''0000'') (world ''B'' ''0000'') 1 7 7 db5)))
     \<noteq> 400 \<and>
   balanceOf 1 (snd (snd (two_overlapped (world ''A'' ''0000'') (world ''B'' ''0000'') 1 7 7 db5)))
     = Some 0"
proof -
  have h: "users db5 1 = Some (alice\<lparr>accountBalance := 5\<rparr>) \<and>
      accountBalance (alice\<lparr>accountBalance := 5\<rparr>) = 5 \<and>
      posts db5 7 = Some flat \<and> posts db5 7 = Some flat"
    by (simp add: db5_def db0_def)
  from C2_two_contact_calls [of db5 1 "alice\<lparr>accountBalance := 5\<rparr>" 7 flat 7 flat
      "world ''A'' ''0000''" "world ''B'' ''0000''"] h
  show ?thesis by blast
qed

text \<open>
  C3. The balance of a user should equal the sum of the signed amounts of the user's
  completed transactions after every sequence of requests. Two sequences break it. A
  callback delivered twice credits 200 against one completed recharge of 100. A contact view debits 5, and the
  ledger record of the debit is rejected by the schema (its payment method
  \<open>account_balance\<close> is not in the \<open>enum\<close>), so the balance is 95 against a completed
  sum of 100 and the ledger holds one transaction.
\<close>

theorem C3_balance_leaves_ledger:
  "balanceOf 1 (run [pay ''A'' 100, confirm ''A'' ''0000''] db0) = Some 100 \<and>
   completedSum 1 (run [pay ''A'' 100, confirm ''A'' ''0000''] db0) = 100 \<and>
   balanceOf 1 (run [pay ''A'' 100, confirm ''A'' ''0000'', confirm ''A'' ''0000''] db0)
     = Some 200 \<and>
   completedSum 1 (run [pay ''A'' 100, confirm ''A'' ''0000'', confirm ''A'' ''0000''] db0)
     = 100 \<and>
   balanceOf 1 (run [pay ''A'' 100, confirm ''A'' ''0000'', (world ''B'' ''0000'', Contact 1 7)] db0)
     = Some 95 \<and>
   completedSum 1 (run [pay ''A'' 100, confirm ''A'' ''0000'', (world ''B'' ''0000'', Contact 1 7)] db0)
     = 100 \<and>
   length (transactions
     (run [pay ''A'' 100, confirm ''A'' ''0000'', (world ''B'' ''0000'', Contact 1 7)] db0)) = 1 \<and>
   responses [(world ''B'' ''0000'', Contact 1 7)] (run [pay ''A'' 100, confirm ''A'' ''0000''] db0) =
     [\<lparr>code = 500, success = False,
       message = Thrown (ValidatorError ''paymentMethod'' ''account_balance'')\<rparr>]"
  by (simp add: balanceOf_def completedSum_def signedAmount_def example_defs handler_defs)




text \<open>
  C5. A balance is never negative: from a database in which no balance and no stored
  amount is negative (a new account starts at 0, and a new ledger is empty), every
  sequence of recharge, callback, verify, contact and profile requests leads to a
  database in which the balance of every user is at least 0.
\<close>

theorem C5_balance_never_negative:
  "nonneg s \<Longrightarrow> users (run xs s) uid = Some u \<Longrightarrow> 0 \<le> accountBalance u"
  using nonneg_run [of s xs] by (rule nonneg_user)

theorem C5_balance_never_negative_witness:
  "nonneg db0 \<and>
   users (run [pay ''A'' 100, confirm ''A'' ''0000'', (world ''B'' ''0000'', Contact 1 7)] db0) 1
     = Some (alice\<lparr>accountBalance := 95, totalSpent := 5\<rparr>) \<and>
   0 \<le> accountBalance (alice\<lparr>accountBalance := 95, totalSpent := 5\<rparr>)"
proof -
  have n: "nonneg db0"
    by (simp add: nonneg_def example_defs)
  have r: "users (run [pay ''A'' 100, confirm ''A'' ''0000'', (world ''B'' ''0000'', Contact 1 7)] db0) 1
     = Some (alice\<lparr>accountBalance := 95, totalSpent := 5\<rparr>)"
    by (simp add: example_defs handler_defs)
  from n r C5_balance_never_negative [OF n r] show ?thesis by simp
qed

text \<open>
  C6, as stated, fails: a user with balance 3 who asks for a post that does not exist is
  answered 404 \<open>Post not found\<close>, not with the insufficient-balance error.
\<close>

theorem C6_missing_post_is_not_found:
  "fst (contact (world ''B'' ''0000'') 1 99 db3) = resp 404 False ''Post not found'' \<and>
   balanceOf 1 db3 = Some 3"
  by (simp add: db3_def balanceOf_def example_defs handler_defs)

text \<open>
  C6, amended. A contact request of a user whose balance is below 5 changes nothing in
  the database (balance, \<open>totalSpent\<close>, transactions, posts); it is answered 400 with
  the insufficient-balance message when the post exists and 404 when it does not.
\<close>

theorem C6_insufficient_balance_no_effect:
  "users s uid = Some u \<Longrightarrow> accountBalance u < 5 \<Longrightarrow>
   contact e uid pid s =
     (if posts s pid = None then resp 404 False ''Post not found''
      else resp 400 False ''Insufficient balance. Please recharge your account.'', s)"
  by (rule contact_low_balance)

theorem C6_insufficient_balance_no_effect_witness:
  "users db3 1 = Some (alice\<lparr>accountBalance := 3\<rparr>) \<and>
   accountBalance (alice\<lparr>accountBalance := 3\<rparr>) < 5 \<and>
   contact (world ''B'' ''0000'') 1 7 db3 =
     (resp 400 False ''Insufficient balance. Please recharge your account.'', db3) \<and>
   balanceOf 1 (snd (contact (world ''B'' ''0000'') 1 7 db3)) = Some 3"
proof -
  have u: "users db3 1 = Some (alice\<lparr>accountBalance := 3\<rparr>)"
    by (simp add: db3_def)
  have l: "accountBalance (alice\<lparr>accountBalance := 3\<rparr>) < 5"
    by simp
  have p: "posts db3 7 \<noteq> None"
    by (simp add: db3_def db0_def)
  from C6_insufficient_balance_no_effect [OF u l, of "world ''B'' ''0000''" 7] u l p
  show ?thesis by (simp add: balanceOf_def)
qed




text \<open>
  C8. The callback never uses an amount of the request body: two bodies that agree on
  every key except \<open>amount\<close> give the same response and the same database. When the
  callback answers with success the owner's balance has grown by the amount stored in the
  ledger transaction, and when it does not, no user document has changed.
\<close>

theorem C8_callback_amount_from_ledger:
  assumes "\<forall>k. k \<noteq> ''amount'' \<longrightarrow> b1 k = b2 k"
  shows "callback e b1 s = callback e b2 s \<and>
     (\<forall>t. findOne e (b1 ''transactionId'') s = Inr (Some t) \<and> success (fst (callback e b1 s)) \<longrightarrow>
        (\<exists>u. users s (user t) = Some u \<and>
           balanceOf (user t) (snd (callback e b1 s)) = Some (accountBalance u + amount t))) \<and>
     (\<not> success (fst (callback e b1 s)) \<longrightarrow> users (snd (callback e b1 s)) = users s)"
proof (intro conjI allI impI)
  from assms show "callback e b1 s = callback e b2 s"
    by (intro callback_cong) simp_all
next
  fix t
  assume "findOne e (b1 ''transactionId'') s = Inr (Some t) \<and> success (fst (callback e b1 s))"
  then show "\<exists>u. users s (user t) = Some u \<and>
           balanceOf (user t) (snd (callback e b1 s)) = Some (accountBalance u + amount t)"
    using callback_success by blast
next
  assume "\<not> success (fst (callback e b1 s))"
  then show "users (snd (callback e b1 s)) = users s" by (rule callback_no_success)
qed

theorem C8_callback_amount_from_ledger_witness:
  "callback_body ''A'' ''success'' ''amount'' = None \<and> forged ''amount'' = Some (JNum 1000000) \<and>
   callback (world ''A'' ''0000'') (callback_body ''A'' ''success'') (run [pay ''A'' 100] db0) =
   callback (world ''A'' ''0000'') forged (run [pay ''A'' 100] db0) \<and>
   balanceOf 1 (snd (callback (world ''A'' ''0000'') forged (run [pay ''A'' 100] db0))) = Some 100"
proof -
  have h: "\<forall>k. k \<noteq> ''amount'' \<longrightarrow> callback_body ''A'' ''success'' k = forged k"
    by (simp add: forged_def)
  have b: "balanceOf 1 (snd (callback (world ''A'' ''0000'') forged (run [pay ''A'' 100] db0))) = Some 100"
    by (simp add: forged_def balanceOf_def example_defs handler_defs)
  have d: "callback_body ''A'' ''success'' ''amount'' = None \<and> forged ''amount'' = Some (JNum 1000000)"
    by (simp add: forged_def callback_body_def)
  from d b C8_callback_amount_from_ledger [OF h, of "world ''A'' ''0000''" "run [pay ''A'' 100] db0"]
  show ?thesis by simp
qed




text \<open>
  C10. The profile route changes none of \<open>accountBalance\<close>, \<open>password\<close>, \<open>email\<close>,
  \<open>isVerified\<close> and \<open>isBanned\<close>, of the caller or of any other user, whatever the
  body of the request holds.
\<close>

theorem C10_profile_update_protected:
  "map_option protected (users (snd (profile_update e uid b s)) uid') =
   map_option protected (users s uid')"
  by (auto simp: profile_update_def findByIdAndUpdate_def apply_set_def delete_def assign_def
      protected_def Let_def split: option.splits sum.splits)

end
